theory Spec2Isabelle
  imports Main "HOL-Library.Sublist"
begin

section \<open>Python values used by \<open>main.py\<close>\<close>

text \<open>
  The service handles decoded JSON only: the inbound body of the booking route, and
  whatever \<open>response.json()\<close> gives for an upstream body. A decoded JSON document is
  a Python value; \<open>JNull\<close> is Python's \<open>None\<close>. A \<open>dict\<close> is its list of
  items (keys distinct), read with \<open>map_of\<close>. Strings are lists of bytes (UTF-8); the
  code only tests ASCII prefixes and splits at \<open>/\<close>, which UTF-8 preserves.
\<close>

datatype pyfloat = Finite int int | Infinite bool | NaN

datatype json =
    JNull
  | JBool bool
  | JInt int
  | JFloat pyfloat
  | JStr string
  | JArr "json list"
  | JObj "(string \<times> json) list"

text \<open>Python's truth value (\<open>if x\<close>, \<open>not x\<close>).\<close>

fun truthy :: "json \<Rightarrow> bool" where
  "truthy JNull = False"
| "truthy (JBool b) = b"
| "truthy (JInt i) = (i \<noteq> 0)"
| "truthy (JFloat f) = (case f of Finite m e \<Rightarrow> m \<noteq> 0 | _ \<Rightarrow> True)"
| "truthy (JStr s) = (s \<noteq> [])"
| "truthy (JArr xs) = (xs \<noteq> [])"
| "truthy (JObj kvs) = (kvs \<noteq> [])"

text \<open>
  The exceptions the handlers can meet, each with the text \<open>str(e)\<close> gives.
  \<open>TransportError\<close> stands for whatever \<open>httpx\<close> raises from \<open>client.get\<close> or
  \<open>client.post\<close>. The wording of the interpreter's own messages is CPython's; no
  statement below depends on it.
\<close>

datatype py_exn =
    TransportError string
  | JSONDecodeError string
  | KeyError string
  | TypeError string
  | AttributeError string
  | ValueError string

fun str_exn :: "py_exn \<Rightarrow> string" where
  "str_exn (TransportError m) = m"
| "str_exn (JSONDecodeError m) = m"
| "str_exn (KeyError m) = m"
| "str_exn (TypeError m) = m"
| "str_exn (AttributeError m) = m"
| "str_exn (ValueError m) = m"

definition quoted :: "string \<Rightarrow> string" where
  "quoted s = CHR 0x27 # s @ [CHR 0x27]"

fun type_name :: "json \<Rightarrow> string" where
  "type_name JNull = ''NoneType''"
| "type_name (JBool b) = ''bool''"
| "type_name (JInt i) = ''int''"
| "type_name (JFloat f) = ''float''"
| "type_name (JStr s) = ''str''"
| "type_name (JArr xs) = ''list''"
| "type_name (JObj kvs) = ''dict''"

text \<open>\<open>v[k]\<close> with a string key: only a dict holding the key answers.\<close>

fun subscript :: "json \<Rightarrow> string \<Rightarrow> py_exn + json" where
  "subscript (JObj kvs) k =
     (case map_of kvs k of Some v \<Rightarrow> Inr v | None \<Rightarrow> Inl (KeyError (quoted k)))"
| "subscript (JArr xs) k = Inl (TypeError ''list indices must be integers or slices, not str'')"
| "subscript (JStr s) k = Inl (TypeError (''string indices must be integers, not '' @ quoted ''str''))"
| "subscript v k = Inl (TypeError (quoted (type_name v) @ '' object is not subscriptable''))"

text \<open>\<open>v.get(k, d)\<close>: a method of dicts only.\<close>

fun dict_get :: "json \<Rightarrow> string \<Rightarrow> json \<Rightarrow> py_exn + json" where
  "dict_get (JObj kvs) k d = Inr (case map_of kvs k of Some v \<Rightarrow> v | None \<Rightarrow> d)"
| "dict_get v k d =
     Inl (AttributeError (quoted (type_name v) @ '' object has no attribute '' @ quoted ''get''))"

text \<open>\<open>len(v)\<close>: strings, lists and dicts have a length.\<close>

fun py_len :: "json \<Rightarrow> py_exn + nat" where
  "py_len (JStr s) = Inr (length s)"
| "py_len (JArr xs) = Inr (length xs)"
| "py_len (JObj kvs) = Inr (length kvs)"
| "py_len v = Inl (TypeError (''object of type '' @ quoted (type_name v) @ '' has no len()''))"

text \<open>\<open>s.split(sep)\<close> for a one-character separator; the result is never empty.\<close>

fun split_on :: "char \<Rightarrow> string \<Rightarrow> string list" where
  "split_on c [] = [[]]"
| "split_on c (x # xs) =
     (if x = c then [] # split_on c xs
      else (case split_on c xs of [] \<Rightarrow> [[x]] | w # ws \<Rightarrow> (x # w) # ws))"

text \<open>\<open>str(n)\<close> for an integer, and \<open>f"{x}"\<close> for a value that may be \<open>None\<close>.\<close>

fun digits10 :: "nat \<Rightarrow> string" where
  "digits10 n =
     (if n < 10 then [''0123456789'' ! n]
      else digits10 (n div 10) @ [''0123456789'' ! (n mod 10)])"

declare digits10.simps [simp del]

definition str_int :: "int \<Rightarrow> string" where
  "str_int i = (if i < 0 then CHR ''-'' # digits10 (nat (- i)) else digits10 (nat i))"

fun fmt_opt :: "string option \<Rightarrow> string" where
  "fmt_opt None = ''None''"
| "fmt_opt (Some s) = s"

section \<open>The upstream provider\<close>

text \<open>
  An outbound call is a request handed to \<open>httpx\<close>. The answer is either an exception
  raised by the transport (\<open>Inl\<close>, with its \<open>str\<close>) or a response. A response carries
  its status, its text, and what \<open>response.json()\<close> gives: the decoded document, or
  \<open>Inl\<close> the message of the decoding error it raises. The upstream may answer
  differently over time: its answer is a function of the traffic so far.
\<close>

datatype http_method = GET | POST

record request =
  meth :: http_method
  url :: string
  req_headers :: "(string \<times> string) list"
  params :: "(string \<times> json) list"
  json_payload :: "json option"

record response =
  status_code :: int
  body_text :: string
  body_json :: "string + json"

type_synonym upstream = "request list \<Rightarrow> request \<Rightarrow> string + response"

section \<open>\<open>CalendlyClient\<close>\<close>

record CalendlyClient =
  base_url :: "string option"
  token :: "string option"
  headers :: "(string \<times> string) list"
  user_uri :: json
  user_uuid :: json

text \<open>
  The process state: the module-level \<open>calendly_client\<close> and the outbound requests
  issued so far, oldest first.
\<close>

record world =
  client :: CalendlyClient
  outbound :: "request list"

text \<open>\<open>__init__\<close>; the argument is \<open>os.getenv\<close>.\<close>

definition CalendlyClient_init :: "(string \<Rightarrow> string option) \<Rightarrow> py_exn + CalendlyClient" where
  "CalendlyClient_init getenv =
     (let b = getenv ''BASE_URL''; t = getenv ''CALENDLY_API_TOKEN'' in
      if t = None \<or> t = Some [] then
        Inl (ValueError ''Missing Calendly API token. Please set CALENDLY_API_TOKEN in your environment.'')
      else
        Inr \<lparr>base_url = b, token = t,
             headers = [(''Authorization'', ''Bearer '' @ fmt_opt t),
                        (''Content-Type'', ''application/json'')],
             user_uri = JNull, user_uuid = JNull\<rparr>)"

text \<open>One \<open>await client.get(...)\<close> or \<open>client.post(...)\<close>: the request joins the traffic.\<close>

definition send :: "upstream \<Rightarrow> request \<Rightarrow> world \<Rightarrow> (string + response) \<times> world" where
  "send up r w = (up (outbound w) r, w\<lparr>outbound := outbound w @ [r]\<rparr>)"

definition users_me_request :: "CalendlyClient \<Rightarrow> request" where
  "users_me_request c =
     \<lparr>meth = GET, url = fmt_opt (base_url c) @ ''/users/me'', req_headers = headers c,
      params = [], json_payload = None\<rparr>"

text \<open>
  The body of the \<open>try\<close> in \<open>test_connection\<close>. An exception leaves with the state
  reached so far: the assignments made before it stay.
\<close>

definition test_connection_try :: "upstream \<Rightarrow> world \<Rightarrow> (py_exn + json) \<times> world" where
  "test_connection_try up w =
     (case send up (users_me_request (client w)) w of
        (Inl m, w1) \<Rightarrow> (Inl (TransportError m), w1)
      | (Inr resp, w1) \<Rightarrow>
          if status_code resp = 200 then
            (case body_json resp of
               Inl m \<Rightarrow> (Inl (JSONDecodeError m), w1)
             | Inr user_data \<Rightarrow>
                 (case subscript user_data ''resource'' of
                    Inl e \<Rightarrow> (Inl e, w1)
                  | Inr res \<Rightarrow>
                      (case subscript res ''uri'' of
                         Inl e \<Rightarrow> (Inl e, w1)
                       | Inr uri \<Rightarrow>
                           let w2 = w1\<lparr>client := (client w1)\<lparr>user_uri := uri\<rparr>\<rparr> in
                           (case uri of
                              JStr s \<Rightarrow>
                                let w3 = w2\<lparr>client := (client w2)
                                           \<lparr>user_uuid := JStr (last (split_on CHR ''/'' s))\<rparr>\<rparr> in
                                (case subscript user_data ''resource'' of
                                   Inl e \<Rightarrow> (Inl e, w3)
                                 | Inr res' \<Rightarrow>
                                     (case subscript res' ''name'' of
                                        Inl e \<Rightarrow> (Inl e, w3)
                                      | Inr name \<Rightarrow> (Inr user_data, w3)))
                            | v \<Rightarrow>
                                (Inl (AttributeError (quoted (type_name v)
                                   @ '' object has no attribute '' @ quoted ''split'')), w2)))))
          else (Inr JNull, w1))"

text \<open>\<open>test_connection\<close>: \<open>except Exception\<close> turns every exception into \<open>None\<close>.\<close>

definition test_connection :: "upstream \<Rightarrow> world \<Rightarrow> json \<times> world" where
  "test_connection up w =
     (case test_connection_try up w of
        (Inl e, w') \<Rightarrow> (JNull, w')
      | (Inr v, w') \<Rightarrow> (v, w'))"

definition soft_error :: "response \<Rightarrow> json" where
  "soft_error resp =
     JObj [(''error'', JStr (''Calendly returned '' @ str_int (status_code resp))),
           (''details'', JStr (body_text resp))]"

text \<open>
  What both listing operations do with a response: on 200 decode it, count the
  \<open>collection\<close> for the log, and return the document.
\<close>

definition collection_result :: "response \<Rightarrow> py_exn + json" where
  "collection_result resp =
     (if status_code resp = 200 then
        (case body_json resp of
           Inl m \<Rightarrow> Inl (JSONDecodeError m)
         | Inr data \<Rightarrow>
             (case dict_get data ''collection'' (JArr []) of
                Inl e \<Rightarrow> Inl e
              | Inr coll \<Rightarrow>
                  (case py_len coll of Inl e \<Rightarrow> Inl e | Inr count \<Rightarrow> Inr data)))
      else Inr (soft_error resp))"

definition event_types_request :: "CalendlyClient \<Rightarrow> request" where
  "event_types_request c =
     \<lparr>meth = GET, url = fmt_opt (base_url c) @ ''/event_types'', req_headers = headers c,
      params = [(''user'', user_uri c)], json_payload = None\<rparr>"

definition get_event_types_try :: "upstream \<Rightarrow> world \<Rightarrow> (py_exn + json) \<times> world" where
  "get_event_types_try up w =
     (let w1 = (if \<not> truthy (user_uri (client w)) then snd (test_connection up w) else w) in
      case send up (event_types_request (client w1)) w1 of
        (Inl m, w2) \<Rightarrow> (Inl (TransportError m), w2)
      | (Inr resp, w2) \<Rightarrow> (collection_result resp, w2))"

definition get_event_types :: "upstream \<Rightarrow> world \<Rightarrow> json \<times> world" where
  "get_event_types up w =
     (case get_event_types_try up w of
        (Inl e, w') \<Rightarrow> (JObj [(''error'', JStr (str_exn e))], w')
      | (Inr v, w') \<Rightarrow> (v, w'))"

definition availability_request :: "CalendlyClient \<Rightarrow> string \<Rightarrow> string \<Rightarrow> string \<Rightarrow> request" where
  "availability_request c event_type_uri start_time end_time =
     \<lparr>meth = GET, url = fmt_opt (base_url c) @ ''/event_type_available_times'',
      req_headers = headers c,
      params = [(''event_type'', JStr event_type_uri), (''start_time'', JStr start_time),
                (''end_time'', JStr end_time)],
      json_payload = None\<rparr>"

definition get_availability_try ::
  "upstream \<Rightarrow> world \<Rightarrow> string \<Rightarrow> string \<Rightarrow> string \<Rightarrow> (py_exn + json) \<times> world" where
  "get_availability_try up w event_type_uri start_time end_time =
     (case send up (availability_request (client w) event_type_uri start_time end_time) w of
        (Inl m, w1) \<Rightarrow> (Inl (TransportError m), w1)
      | (Inr resp, w1) \<Rightarrow> (collection_result resp, w1))"

definition get_availability ::
  "upstream \<Rightarrow> world \<Rightarrow> string \<Rightarrow> string \<Rightarrow> string \<Rightarrow> json \<times> world" where
  "get_availability up w event_type_uri start_time end_time =
     (case get_availability_try up w event_type_uri start_time end_time of
        (Inl e, w') \<Rightarrow> (JObj [(''error'', JStr (str_exn e))], w')
      | (Inr v, w') \<Rightarrow> (v, w'))"

section \<open>The routes\<close>

text \<open>
  What a route handler does: return a body (FastAPI serialises it and sends it with
  status 200), raise \<open>RequestValidationError\<close> (FastAPI answers 422 with the
  errors), raise \<open>HTTPException\<close> (answered with its status), or let another
  exception escape (answered 500). The statements below use \<open>http_status\<close> for the
  raised outcomes only.
\<close>

datatype http_result =
    Returned json
  | RequestValidationError "json list"
  | HTTPException int string
  | Unhandled py_exn

fun http_status :: "http_result \<Rightarrow> int" where
  "http_status (Returned b) = 200"
| "http_status (RequestValidationError errs) = 422"
| "http_status (HTTPException code detail) = code"
| "http_status (Unhandled e) = 500"

text \<open>Module load: \<open>calendly_client = CalendlyClient()\<close>; an exception ends the process.\<close>

definition module_load :: "(string \<Rightarrow> string option) \<Rightarrow> py_exn + world" where
  "module_load getenv =
     (case CalendlyClient_init getenv of
        Inl e \<Rightarrow> Inl e
      | Inr c \<Rightarrow> Inr \<lparr>client = c, outbound = []\<rparr>)"

definition startup_event :: "upstream \<Rightarrow> world \<Rightarrow> world" where
  "startup_event up w = snd (test_connection up w)"

definition root :: "world \<Rightarrow> http_result \<times> world" where
  "root w = (Returned (JObj [(''message'', JStr ''Calendly Connection Test API is running!'')]), w)"

definition test_calendly_connection :: "upstream \<Rightarrow> world \<Rightarrow> http_result \<times> world" where
  "test_calendly_connection up w =
     (case test_connection up w of
        (result, w') \<Rightarrow>
          if truthy result then
            (case subscript result ''resource'' of
               Inl e \<Rightarrow> (Unhandled e, w')
             | Inr res \<Rightarrow>
                 (case subscript res ''name'' of
                    Inl e \<Rightarrow> (Unhandled e, w')
                  | Inr name \<Rightarrow>
                      (Returned (JObj [(''status'', JStr ''success''), (''user'', name)]), w')))
          else
            (Returned (JObj [(''status'', JStr ''error''),
                             (''message'', JStr ''Failed to connect to Calendly'')]), w'))"

definition get_calendly_events :: "upstream \<Rightarrow> world \<Rightarrow> http_result \<times> world" where
  "get_calendly_events up w = (case get_event_types up w of (result, w') \<Rightarrow> (Returned result, w'))"

definition validation_error :: "string \<Rightarrow> string \<Rightarrow> json" where
  "validation_error place msg =
     JObj [(''loc'', JArr [JStr place, JStr ''appointment_type'']),
           (''msg'', JStr msg),
           (''type'', JStr ''value_error.invalid_appointment_type'')]"

definition get_calendly_availability ::
  "upstream \<Rightarrow> world \<Rightarrow> string \<Rightarrow> string \<Rightarrow> string \<Rightarrow> http_result \<times> world" where
  "get_calendly_availability up w appointment_type start_time end_time =
     (if \<not> prefix ''https://api.calendly.com/event_types/'' appointment_type then
        (RequestValidationError
           [validation_error ''query''
              ''Invalid appointment_type. Please provide a valid appointment_type, You can get this from URI key in /api/calendly/events''],
         w)
      else
        (case get_availability up w appointment_type start_time end_time of
           (result, w') \<Rightarrow> (Returned result, w')))"

text \<open>The payload sent upstream by the booking route (\<open>calendly_payload\<close>).\<close>

definition calendly_payload :: "(string \<times> json) list \<Rightarrow> json \<Rightarrow> json" where
  "calendly_payload payload appointment_type =
     JObj [(''max_event_count'',
              (case map_of payload ''max_event_count'' of Some v \<Rightarrow> v | None \<Rightarrow> JInt 1)),
           (''owner'', appointment_type),
           (''owner_type'',
              (case map_of payload ''owner_type'' of Some v \<Rightarrow> v | None \<Rightarrow> JStr ''EventType''))]"

definition scheduling_links_request :: "CalendlyClient \<Rightarrow> json \<Rightarrow> request" where
  "scheduling_links_request c body =
     \<lparr>meth = POST, url = fmt_opt (base_url c) @ ''/scheduling_links'', req_headers = headers c,
      params = [], json_payload = Some body\<rparr>"

text \<open>The part of the booking route after validation: the POST and its three outcomes.\<close>

definition post_scheduling_link :: "upstream \<Rightarrow> world \<Rightarrow> json \<Rightarrow> http_result \<times> world" where
  "post_scheduling_link up w body =
     (case send up (scheduling_links_request (client w) body) w of
        (Inl m, w1) \<Rightarrow> (HTTPException 500 (''Error creating scheduling link: '' @ m), w1)
      | (Inr resp, w1) \<Rightarrow>
          if status_code resp = 201 then
            (case body_json resp of
               Inl m \<Rightarrow> (HTTPException 500 (''Error creating scheduling link: '' @ m), w1)
             | Inr data \<Rightarrow> (Returned data, w1))
          else (Returned (soft_error resp), w1))"

text \<open>
  \<open>create_scheduling_link\<close>; the argument is the decoded body, a dict.
  \<open>payload.get("appointment_type")\<close> is \<open>None\<close> for a missing key; a true value that
  is not a string has no \<open>startswith\<close>, and that exception is outside every \<open>try\<close>.
\<close>

definition create_scheduling_link ::
  "upstream \<Rightarrow> world \<Rightarrow> (string \<times> json) list \<Rightarrow> http_result \<times> world" where
  "create_scheduling_link up w payload =
     (let appointment_type = (case map_of payload ''appointment_type'' of Some v \<Rightarrow> v | None \<Rightarrow> JNull);
          invalid = (RequestValidationError
                       [validation_error ''body''
                          ''Invalid appointment_type. Please provide a valid event type URI.''], w)
      in
      if \<not> truthy appointment_type then invalid
      else
        (case appointment_type of
           JStr s \<Rightarrow>
             if \<not> prefix ''https://api.calendly.com/'' s then invalid
             else post_scheduling_link up w (calendly_payload payload appointment_type)
         | v \<Rightarrow>
             (Unhandled (AttributeError (quoted (type_name v)
                @ '' object has no attribute '' @ quoted ''startswith'')), w)))"

text \<open>The inbound surface: one constructor per route, and the dispatch the decorators set up.\<close>

datatype api_call =
    Root
  | TestConnection
  | Events
  | Availability string string string
  | Book "(string \<times> json) list"

fun handle :: "upstream \<Rightarrow> api_call \<Rightarrow> world \<Rightarrow> http_result \<times> world" where
  "handle up Root w = root w"
| "handle up TestConnection w = test_calendly_connection up w"
| "handle up Events w = get_calendly_events up w"
| "handle up (Availability a s e) w = get_calendly_availability up w a s e"
| "handle up (Book payload) w = create_scheduling_link up w payload"

text \<open>The process after a list of inbound requests, served one after the other.\<close>

fun serve :: "upstream \<Rightarrow> api_call list \<Rightarrow> world \<Rightarrow> world" where
  "serve up [] w = w"
| "serve up (c # cs) w = serve up cs (snd (handle up c w))"

section \<open>Credentials and sample inputs\<close>

text \<open>The part of the client that \<open>__init__\<close> reads from the environment.\<close>

definition credentials ::
  "CalendlyClient \<Rightarrow> string option \<times> string option \<times> (string \<times> string) list" where
  "credentials c = (base_url c, token c, headers c)"

text \<open>Concrete environments, upstream behaviours and states, used to run the model.\<close>

definition sample_env :: "string \<Rightarrow> string option" where
  "sample_env k =
     (if k = ''BASE_URL'' then Some ''https://api.calendly.com''
      else if k = ''CALENDLY_API_TOKEN'' then Some ''tok'' else None)"

definition empty_token_env :: "string \<Rightarrow> string option" where
  "empty_token_env k =
     (if k = ''BASE_URL'' then Some ''https://api.calendly.com''
      else if k = ''CALENDLY_API_TOKEN'' then Some [] else None)"

definition no_token_env :: "string \<Rightarrow> string option" where
  "no_token_env k = (if k = ''BASE_URL'' then Some ''https://api.calendly.com'' else None)"

definition sample_client :: CalendlyClient where
  "sample_client =
     \<lparr>base_url = Some ''https://api.calendly.com'', token = Some ''tok'',
      headers = [(''Authorization'', ''Bearer tok''), (''Content-Type'', ''application/json'')],
      user_uri = JNull, user_uuid = JNull\<rparr>"

definition sample_world :: world where
  "sample_world = \<lparr>client = sample_client, outbound = []\<rparr>"

definition cached_world :: world where
  "cached_world =
     \<lparr>client = sample_client\<lparr>user_uri := JStr ''https://api.calendly.com/users/AAA'',
                               user_uuid := JStr ''AAA''\<rparr>,
      outbound = []\<rparr>"

definition always :: "string + response \<Rightarrow> upstream" where
  "always a tr r = a"

definition unreachable :: upstream where
  "unreachable = always (Inl ''All connection attempts failed'')"

definition me_document :: json where
  "me_document =
     JObj [(''resource'', JObj [(''uri'', JStr ''https://api.calendly.com/users/AAA''),
                               (''name'', JStr ''Ann'')])]"

definition slots_document :: json where
  "slots_document = JObj [(''collection'', JArr [JStr ''slot1'', JStr ''slot2''])]"

definition ok_response :: "json \<Rightarrow> response" where
  "ok_response doc = \<lparr>status_code = 200, body_text = ''{...}'', body_json = Inr doc\<rparr>"

definition html_response :: "int \<Rightarrow> response" where
  "html_response code =
     \<lparr>status_code = code, body_text = ''<html>'',
      body_json = Inl ''Expecting value: line 1 column 1 (char 0)''\<rparr>"

definition link_document :: json where
  "link_document =
     JObj [(''resource'', JObj [(''booking_url'', JStr ''https://calendly.com/d/x'')])]"

definition calendly :: upstream where
  "calendly tr r =
     (if url r = ''https://api.calendly.com/users/me'' then Inr (ok_response me_document)
      else if meth r = POST then
        Inr \<lparr>status_code = 201, body_text = ''{...}'', body_json = Inr link_document\<rparr>
      else Inr (ok_response slots_document))"

section \<open>Facts about the helpers\<close>

lemma split_on_nonempty: "split_on c s \<noteq> []"
  by (induction s) (auto split: list.splits)

lemma last_split_on_no_sep: "c \<notin> set (last (split_on c s))"
proof (induction s)
  case Nil
  then show ?case by simp
next
  case (Cons x xs)
  then show ?case
    by (cases "split_on c xs") (auto simp: split_on_nonempty)
qed

lemma split_on_single: "split_on c s = [a] \<Longrightarrow> a = s"
  by (induction s arbitrary: a) (auto simp: split_on_nonempty split: if_splits list.splits)

lemma last_split_on_suffix: "suffix (last (split_on c s)) s"
proof (induction s)
  case Nil
  then show ?case by simp
next
  case (Cons x xs)
  then show ?case
    by (cases "split_on c xs") (auto simp: split_on_nonempty suffix_Cons dest: split_on_single split: if_splits)
qed

lemma test_connection_try_outbound:
  "outbound (snd (test_connection_try up w)) = outbound w @ [users_me_request (client w)]"
  by (auto simp: test_connection_try_def send_def Let_def
           split: sum.splits json.splits prod.splits)

lemma test_connection_outbound:
  "outbound (snd (test_connection up w)) = outbound w @ [users_me_request (client w)]"
  using test_connection_try_outbound [of up w]
  by (auto simp: test_connection_def split: sum.splits prod.splits)

lemma test_connection_try_credentials:
  "credentials (client (snd (test_connection_try up w))) = credentials (client w)"
  by (auto simp: test_connection_try_def send_def credentials_def Let_def
           split: sum.splits json.splits prod.splits)

lemma test_connection_credentials:
  "credentials (client (snd (test_connection up w))) = credentials (client w)"
  using test_connection_try_credentials [of up w]
  by (auto simp: test_connection_def split: sum.splits prod.splits)

lemma test_connection_failure:
  assumes "(\<exists>m. up (outbound w) (users_me_request (client w)) = Inl m) \<or>
           (\<exists>resp. up (outbound w) (users_me_request (client w)) = Inr resp \<and> status_code resp \<noteq> 200)"
  shows "test_connection up w = (JNull, w\<lparr>outbound := outbound w @ [users_me_request (client w)]\<rparr>)"
  using assms by (auto simp: test_connection_def test_connection_try_def send_def)

lemma test_connection_success:
  assumes "up (outbound w) (users_me_request (client w)) = Inr resp"
    and "status_code resp = 200"
    and "body_json resp = Inr user_data"
    and "subscript user_data ''resource'' = Inr res"
    and "subscript res ''uri'' = Inr (JStr u)"
    and "subscript res ''name'' = Inr n"
  shows "test_connection up w =
           (user_data,
            w\<lparr>outbound := outbound w @ [users_me_request (client w)],
              client := (client w)\<lparr>user_uri := JStr u,
                                   user_uuid := JStr (last (split_on CHR ''/'' u))\<rparr>\<rparr>)"
  using assms by (simp add: test_connection_def test_connection_try_def send_def Let_def)

lemma test_connection_caches_uri:
  assumes "up (outbound w) (users_me_request (client w)) = Inr resp"
    and "status_code resp = 200"
    and "body_json resp = Inr user_data"
    and "subscript user_data ''resource'' = Inr res"
    and "subscript res ''uri'' = Inr (JStr u)"
  shows "user_uri (client (snd (test_connection up w))) = JStr u"
  using assms
  by (auto simp: test_connection_def test_connection_try_def send_def Let_def split: sum.splits)

lemma get_event_types_try_cached:
  assumes "truthy (user_uri (client w))"
  shows "snd (get_event_types_try up w) = w\<lparr>outbound := outbound w @ [event_types_request (client w)]\<rparr>"
  using assms by (auto simp: get_event_types_try_def send_def Let_def split: sum.splits)

lemma get_event_types_snd: "snd (get_event_types up w) = snd (get_event_types_try up w)"
  by (auto simp: get_event_types_def split: sum.splits prod.splits)

lemma get_event_types_try_uncached:
  assumes "\<not> truthy (user_uri (client w))"
  shows "snd (get_event_types_try up w) =
           (snd (test_connection up w))
             \<lparr>outbound := outbound w @ [users_me_request (client w),
                 event_types_request (client (snd (test_connection up w)))]\<rparr>"
  using assms
  by (auto simp: get_event_types_try_def send_def Let_def test_connection_outbound split: sum.splits)

lemma get_event_types_credentials:
  "credentials (client (snd (get_event_types up w))) = credentials (client w)"
proof (cases "truthy (user_uri (client w))")
  case True
  then show ?thesis by (simp add: get_event_types_snd get_event_types_try_cached)
next
  case False
  then show ?thesis
    by (simp add: get_event_types_snd get_event_types_try_uncached test_connection_credentials)
qed

lemma get_availability_snd:
  "snd (get_availability up w a s e) = w\<lparr>outbound := outbound w @ [availability_request (client w) a s e]\<rparr>"
  by (auto simp: get_availability_def get_availability_try_def send_def split: sum.splits prod.splits)

lemma post_scheduling_link_snd:
  "snd (post_scheduling_link up w body) =
     w\<lparr>outbound := outbound w @ [scheduling_links_request (client w) body]\<rparr>"
  by (auto simp: post_scheduling_link_def send_def split: sum.splits)

lemma create_scheduling_link_credentials:
  "credentials (client (snd (create_scheduling_link up w payload))) = credentials (client w)"
  by (auto simp: create_scheduling_link_def Let_def post_scheduling_link_snd
           split: json.splits option.splits)

lemma test_calendly_connection_snd:
  "snd (test_calendly_connection up w) = snd (test_connection up w)"
  by (auto simp: test_calendly_connection_def split: prod.splits sum.splits)

lemma get_calendly_events_snd:
  "snd (get_calendly_events up w) = snd (get_event_types up w)"
  by (auto simp: get_calendly_events_def split: prod.splits)

lemma get_calendly_availability_credentials:
  "credentials (client (snd (get_calendly_availability up w a s e))) = credentials (client w)"
  using get_availability_snd [of up w a s e]
  by (auto simp: get_calendly_availability_def split: prod.splits)

lemma handle_credentials:
  "credentials (client (snd (handle up c w))) = credentials (client w)"
  by (cases c)
     (simp_all add: root_def test_calendly_connection_snd test_connection_credentials
        get_calendly_events_snd get_event_types_credentials
        get_calendly_availability_credentials create_scheduling_link_credentials)

lemma serve_credentials:
  "credentials (client (serve up cs w)) = credentials (client w)"
  by (induction cs arbitrary: w) (simp_all add: handle_credentials)

lemma sample_world_loaded: "module_load sample_env = Inr sample_world"
  by (simp add: module_load_def CalendlyClient_init_def sample_env_def sample_world_def
        sample_client_def)


lemma collection_result_ok:
  assumes "status_code resp = 200" and "body_json resp = Inr (JObj kvs)"
    and "map_of kvs ''collection'' = None \<or> (\<exists>items. map_of kvs ''collection'' = Some (JArr items))"
  shows "collection_result resp = Inr (JObj kvs)"
  using assms by (auto simp: collection_result_def)

lemma collection_result_soft:
  assumes "status_code resp \<noteq> 200"
  shows "collection_result resp = Inr (soft_error resp)"
  using assms by (simp add: collection_result_def)

lemma get_availability_fst:
  "fst (get_availability up w a s e) =
     (case up (outbound w) (availability_request (client w) a s e) of
        Inl m \<Rightarrow> JObj [(''error'', JStr m)]
      | Inr resp \<Rightarrow>
          (case collection_result resp of
             Inl ex \<Rightarrow> JObj [(''error'', JStr (str_exn ex))]
           | Inr v \<Rightarrow> v))"
  by (auto simp: get_availability_def get_availability_try_def send_def split: sum.splits)

lemma get_event_types_fst:
  assumes "w1 = (if truthy (user_uri (client w)) then w else snd (test_connection up w))"
  shows "fst (get_event_types up w) =
     (case up (outbound w1) (event_types_request (client w1)) of
        Inl m \<Rightarrow> JObj [(''error'', JStr m)]
      | Inr resp \<Rightarrow>
          (case collection_result resp of
             Inl ex \<Rightarrow> JObj [(''error'', JStr (str_exn ex))]
           | Inr v \<Rightarrow> v))"
  using assms
  by (auto simp: get_event_types_def get_event_types_try_def send_def Let_def split: sum.splits)

lemma post_scheduling_link_fst:
  "fst (post_scheduling_link up w body) =
     (case up (outbound w) (scheduling_links_request (client w) body) of
        Inl m \<Rightarrow> HTTPException 500 (''Error creating scheduling link: '' @ m)
      | Inr resp \<Rightarrow>
          if status_code resp = 201 then
            (case body_json resp of
               Inl m \<Rightarrow> HTTPException 500 (''Error creating scheduling link: '' @ m)
             | Inr data \<Rightarrow> Returned data)
          else Returned (soft_error resp))"
  by (auto simp: post_scheduling_link_def send_def split: sum.splits)

lemma create_scheduling_link_valid:
  assumes "map_of payload ''appointment_type'' = Some (JStr a)"
    and "prefix ''https://api.calendly.com/'' a"
  shows "create_scheduling_link up w payload
           = post_scheduling_link up w (calendly_payload payload (JStr a))"
proof -
  from assms(2) have "a \<noteq> []" by auto
  with assms show ?thesis by (simp add: create_scheduling_link_def)
qed

section \<open>The claims\<close>

subsection \<open>Inbound validation of the availability route\<close>

text \<open>
  Claim C1. Whenever the query parameter \<open>appointment_type\<close> of the availability
  route does not start with \<open>https://api.calendly.com/event_types/\<close>, the handler
  raises a \<open>RequestValidationError\<close> (answered 422) whose single error has the location
  \<open>["query", "appointment_type"]\<close>, and the process state is what it was: the client
  is untouched and no request has been added to the outbound traffic. This holds for
  every upstream behaviour, since the upstream is never consulted.
\<close>

theorem availability_rejects_foreign_prefix:
  assumes "\<not> prefix ''https://api.calendly.com/event_types/'' appointment_type"
  shows "(\<exists>e. fst (get_calendly_availability up w appointment_type start_time end_time)
                 = RequestValidationError [e]
              \<and> subscript e ''loc'' = Inr (JArr [JStr ''query'', JStr ''appointment_type'']))
         \<and> http_status (fst (get_calendly_availability up w appointment_type start_time end_time)) = 422
         \<and> snd (get_calendly_availability up w appointment_type start_time end_time) = w"
  using assms by (simp add: get_calendly_availability_def validation_error_def)

theorem availability_rejects_foreign_prefix_witness:
  "\<not> prefix ''https://api.calendly.com/event_types/'' ''https://api.calendly.com/users/x''
   \<and> http_status (fst (get_calendly_availability calendly sample_world
         ''https://api.calendly.com/users/x'' ''2025-11-14'' ''2025-11-20'')) = 422
   \<and> snd (get_calendly_availability calendly sample_world
         ''https://api.calendly.com/users/x'' ''2025-11-14'' ''2025-11-20'') = sample_world"
proof -
  have h: "\<not> prefix ''https://api.calendly.com/event_types/'' ''https://api.calendly.com/users/x''"
    by simp
  from availability_rejects_foreign_prefix
         [OF h, of calendly sample_world "''2025-11-14''" "''2025-11-20''"]
  show ?thesis using h by blast
qed

subsection \<open>The outcomes of the booking route\<close>

text \<open>
  Claim C2 says that a validated booking request answered 201 by the upstream returns
  the upstream body. As stated this fails: \<open>response.json()\<close> is called inside the
  \<open>try\<close>, so a 201 whose body does not decode ends in the \<open>except\<close> branch, and
  the route raises \<open>HTTPException(500)\<close> instead of returning a body.
\<close>

theorem booking_created_undecodable_counterexample:
  "map_of [(''appointment_type'', JStr ''https://api.calendly.com/event_types/abc'')]
      ''appointment_type'' = Some (JStr ''https://api.calendly.com/event_types/abc'')
   \<and> prefix ''https://api.calendly.com/'' ''https://api.calendly.com/event_types/abc''
   \<and> status_code (html_response 201) = 201
   \<and> fst (create_scheduling_link (always (Inr (html_response 201))) sample_world
            [(''appointment_type'', JStr ''https://api.calendly.com/event_types/abc'')])
       = HTTPException 500
           ''Error creating scheduling link: Expecting value: line 1 column 1 (char 0)''"
  by (simp add: create_scheduling_link_def post_scheduling_link_def send_def always_def
        html_response_def Let_def)

text \<open>
  Claim C2, amended. For a booking body whose \<open>appointment_type\<close> is a string
  starting with \<open>https://api.calendly.com/\<close>, and the request \<open>r\<close> the route
  posts: if the upstream answers 201 and the body decodes, the route returns the decoded
  document as it is; if it answers 201 and the body does not decode, the route raises
  \<open>HTTPException(500)\<close>; if it answers any other status, the route returns
  \<open>{error, details}\<close>, where \<open>error\<close> is \<open>Calendly returned\<close> followed by the
  status in decimal and \<open>details\<close> is the response text; if the transport raises, the
  route raises \<open>HTTPException(500)\<close> with the exception's text, not a soft payload.
\<close>

theorem booking_outcomes:
  assumes "map_of payload ''appointment_type'' = Some (JStr a)"
    and "prefix ''https://api.calendly.com/'' a"
    and "r = scheduling_links_request (client w) (calendly_payload payload (JStr a))"
  shows "(up (outbound w) r = Inr resp \<and> status_code resp = 201 \<and> body_json resp = Inr data
            \<longrightarrow> fst (create_scheduling_link up w payload) = Returned data)
       \<and> (up (outbound w) r = Inr resp \<and> status_code resp = 201 \<and> body_json resp = Inl m
            \<longrightarrow> fst (create_scheduling_link up w payload)
                  = HTTPException 500 (''Error creating scheduling link: '' @ m))
       \<and> (up (outbound w) r = Inr resp \<and> status_code resp \<noteq> 201
            \<longrightarrow> fst (create_scheduling_link up w payload)
                  = Returned (JObj [(''error'', JStr (''Calendly returned '' @ str_int (status_code resp))),
                                    (''details'', JStr (body_text resp))]))
       \<and> (up (outbound w) r = Inl m
            \<longrightarrow> fst (create_scheduling_link up w payload)
                  = HTTPException 500 (''Error creating scheduling link: '' @ m)
                \<and> http_status (fst (create_scheduling_link up w payload)) = 500)"
  using assms
  by (simp add: create_scheduling_link_valid post_scheduling_link_fst soft_error_def)

theorem booking_outcomes_witness:
  "fst (create_scheduling_link calendly sample_world
          [(''appointment_type'', JStr ''https://api.calendly.com/event_types/abc'')])
     = Returned link_document
   \<and> fst (create_scheduling_link (always (Inr (html_response 404))) sample_world
          [(''appointment_type'', JStr ''https://api.calendly.com/event_types/abc'')])
     = Returned (JObj [(''error'', JStr ''Calendly returned 404''), (''details'', JStr ''<html>'')])
   \<and> fst (create_scheduling_link unreachable sample_world
          [(''appointment_type'', JStr ''https://api.calendly.com/event_types/abc'')])
     = HTTPException 500 ''Error creating scheduling link: All connection attempts failed''
   \<and> fst (create_scheduling_link (always (Inr (html_response 201))) sample_world
          [(''appointment_type'', JStr ''https://api.calendly.com/event_types/abc'')])
     = HTTPException 500 ''Error creating scheduling link: Expecting value: line 1 column 1 (char 0)''"
proof -
  let ?p = "[(''appointment_type'', JStr ''https://api.calendly.com/event_types/abc'')]"
  let ?a = "''https://api.calendly.com/event_types/abc''"
  let ?r = "scheduling_links_request (client sample_world) (calendly_payload ?p (JStr ?a))"
  have a: "map_of ?p ''appointment_type'' = Some (JStr ?a)" by simp
  have b: "prefix ''https://api.calendly.com/'' ?a" by simp
  have r1: "calendly (outbound sample_world) ?r
              = Inr \<lparr>status_code = 201, body_text = ''{...}'', body_json = Inr link_document\<rparr>"
    by (simp add: calendly_def scheduling_links_request_def sample_world_def sample_client_def)
  have r2: "always (Inr (html_response 404)) (outbound sample_world) ?r = Inr (html_response 404)
            \<and> status_code (html_response 404) \<noteq> 201"
    by (simp add: always_def html_response_def)
  have r3: "unreachable (outbound sample_world) ?r = Inl ''All connection attempts failed''"
    by (simp add: always_def unreachable_def)
  have r4: "always (Inr (html_response 201)) (outbound sample_world) ?r = Inr (html_response 201)
            \<and> status_code (html_response 201) = 201
            \<and> body_json (html_response 201) = Inl ''Expecting value: line 1 column 1 (char 0)''"
    by (simp add: always_def html_response_def)
  have d: "str_int 404 = ''404''"
    by (simp add: str_int_def digits10.simps)
  from r1 booking_outcomes [OF a b refl, of calendly sample_world
         "\<lparr>status_code = 201, body_text = ''{...}'', body_json = Inr link_document\<rparr>"
         link_document]
  have c1: "fst (create_scheduling_link calendly sample_world ?p) = Returned link_document"
    by simp
  from r2 d booking_outcomes [OF a b refl, of "always (Inr (html_response 404))" sample_world
         "html_response 404"]
  have c2: "fst (create_scheduling_link (always (Inr (html_response 404))) sample_world ?p)
     = Returned (JObj [(''error'', JStr ''Calendly returned 404''), (''details'', JStr ''<html>'')])"
    by (simp add: html_response_def)
  from r3 booking_outcomes [OF a b refl, of unreachable sample_world _ _
         "''All connection attempts failed''"]
  have c3: "fst (create_scheduling_link unreachable sample_world ?p)
     = HTTPException 500 ''Error creating scheduling link: All connection attempts failed''"
    by simp
  from r4 booking_outcomes [OF a b refl, of "always (Inr (html_response 201))" sample_world
         "html_response 201" _ "''Expecting value: line 1 column 1 (char 0)''"]
  have c4: "fst (create_scheduling_link (always (Inr (html_response 201))) sample_world ?p)
     = HTTPException 500 ''Error creating scheduling link: Expecting value: line 1 column 1 (char 0)''"
    by simp
  from c1 c2 c3 c4 show ?thesis by simp
qed

subsection \<open>The cached identity and the listing of event types\<close>

text \<open>
  Claim C3 says that in every state in which the current-user call has returned 200 the
  identity is cached and later listings do not fetch it again. As stated this fails: a
  200 whose body does not decode caches nothing, and the next listing calls
  \<open>/users/me\<close> once more before it asks for the event types.
\<close>

theorem current_user_undecodable_counterexample:
  "always (Inr (html_response 200)) (outbound sample_world)
      (users_me_request (client sample_world)) = Inr (html_response 200)
   \<and> status_code (html_response 200) = 200
   \<and> user_uri (client (snd (test_connection (always (Inr (html_response 200))) sample_world)))
       = JNull
   \<and> map url (outbound (snd (get_event_types (always (Inr (html_response 200)))
               (snd (test_connection (always (Inr (html_response 200))) sample_world)))))
       = [''https://api.calendly.com/users/me'', ''https://api.calendly.com/users/me'',
          ''https://api.calendly.com/event_types'']"
  by (simp add: get_event_types_def get_event_types_try_def test_connection_def
        test_connection_try_def send_def always_def html_response_def sample_world_def
        sample_client_def users_me_request_def event_types_request_def collection_result_def
        Let_def)

text \<open>
  Claim C3, amended. A connection test answered 200 with a body that decodes to a
  document whose \<open>resource.uri\<close> is a non-empty string caches that URI. In every state
  whose cached identity is true in Python's sense, listing event types issues exactly one
  outbound request, the GET of \<open>/event_types\<close> with the cached identity as its
  \<open>user\<close> parameter, and changes nothing else: the identity is not fetched again.
  In every state without such an identity, listing first runs the connection test (one
  GET of \<open>/users/me\<close>) and then asks for the event types with the identity the test
  left.
\<close>

theorem event_types_use_cached_identity:
  "(up (outbound w) (users_me_request (client w)) = Inr resp \<and> status_code resp = 200
      \<and> body_json resp = Inr user_data
      \<and> subscript user_data ''resource'' = Inr res
      \<and> subscript res ''uri'' = Inr (JStr u) \<and> u \<noteq> []
    \<longrightarrow> user_uri (client (snd (test_connection up w))) = JStr u
        \<and> truthy (user_uri (client (snd (test_connection up w)))))
   \<and> (truthy (user_uri (client w))
    \<longrightarrow> snd (get_event_types up w)
          = w\<lparr>outbound := outbound w @
                [\<lparr>meth = GET, url = fmt_opt (base_url (client w)) @ ''/event_types'',
                  req_headers = headers (client w),
                  params = [(''user'', user_uri (client w))], json_payload = None\<rparr>]\<rparr>)
   \<and> (\<not> truthy (user_uri (client w))
    \<longrightarrow> snd (get_event_types up w)
          = (snd (test_connection up w))
              \<lparr>outbound := outbound w @
                [users_me_request (client w),
                 \<lparr>meth = GET, url = fmt_opt (base_url (client w)) @ ''/event_types'',
                  req_headers = headers (client w),
                  params = [(''user'', user_uri (client (snd (test_connection up w))))],
                  json_payload = None\<rparr>]\<rparr>)"
proof -
  have cached: "user_uri (client (snd (test_connection up w))) = JStr u"
    if "up (outbound w) (users_me_request (client w)) = Inr resp" "status_code resp = 200"
       "body_json resp = Inr user_data" "subscript user_data ''resource'' = Inr res"
       "subscript res ''uri'' = Inr (JStr u)"
    using that by (rule test_connection_caches_uri)
  have creds: "base_url (client (snd (test_connection up w))) = base_url (client w)
               \<and> headers (client (snd (test_connection up w))) = headers (client w)"
    using test_connection_credentials [of up w] by (simp add: credentials_def)
  have hit: "snd (get_event_types up w)
          = w\<lparr>outbound := outbound w @ [event_types_request (client w)]\<rparr>"
    if "truthy (user_uri (client w))"
    using that by (simp add: get_event_types_snd get_event_types_try_cached)
  have miss: "snd (get_event_types up w)
          = (snd (test_connection up w))
              \<lparr>outbound := outbound w @
                [users_me_request (client w),
                 event_types_request (client (snd (test_connection up w)))]\<rparr>"
    if "\<not> truthy (user_uri (client w))"
    using that by (simp add: get_event_types_snd get_event_types_try_uncached)
  from cached hit miss creds show ?thesis
    by (simp add: event_types_request_def)
qed

theorem event_types_use_cached_identity_witness:
  "user_uri (client (snd (test_connection calendly sample_world)))
     = JStr ''https://api.calendly.com/users/AAA''
   \<and> map (\<lambda>r. (url r, params r))
        (outbound (snd (get_event_types calendly (snd (test_connection calendly sample_world)))))
     = [(''https://api.calendly.com/users/me'', []),
        (''https://api.calendly.com/event_types'',
         [(''user'', JStr ''https://api.calendly.com/users/AAA'')])]
   \<and> map (\<lambda>r. (url r, params r)) (outbound (snd (get_event_types calendly sample_world)))
     = [(''https://api.calendly.com/users/me'', []),
        (''https://api.calendly.com/event_types'',
         [(''user'', JStr ''https://api.calendly.com/users/AAA'')])]"
proof -
  let ?res = "JObj [(''uri'', JStr ''https://api.calendly.com/users/AAA''), (''name'', JStr ''Ann'')]"
  let ?w1 = "snd (test_connection calendly sample_world)"
  have a: "calendly (outbound sample_world) (users_me_request (client sample_world))
             = Inr (ok_response me_document)
           \<and> status_code (ok_response me_document) = 200
           \<and> body_json (ok_response me_document) = Inr me_document
           \<and> subscript me_document ''resource'' = Inr ?res
           \<and> subscript ?res ''uri'' = Inr (JStr ''https://api.calendly.com/users/AAA'')
           \<and> ''https://api.calendly.com/users/AAA'' \<noteq> []"
    by (simp add: calendly_def users_me_request_def sample_world_def sample_client_def
          ok_response_def me_document_def)
  from a event_types_use_cached_identity [of calendly sample_world "ok_response me_document"
         me_document ?res "''https://api.calendly.com/users/AAA''"]
  have c1: "user_uri (client ?w1) = JStr ''https://api.calendly.com/users/AAA''
            \<and> truthy (user_uri (client ?w1))"
    by blast
  have o1: "outbound ?w1 = [users_me_request sample_client]"
    by (simp add: test_connection_outbound sample_world_def)
  have k1: "base_url (client ?w1) = Some ''https://api.calendly.com''"
    using test_connection_credentials [of calendly sample_world]
    by (simp add: credentials_def sample_world_def sample_client_def)
  from c1 event_types_use_cached_identity [of calendly ?w1]
  have "snd (get_event_types calendly ?w1)
          = ?w1\<lparr>outbound := outbound ?w1 @
                [\<lparr>meth = GET, url = fmt_opt (base_url (client ?w1)) @ ''/event_types'',
                  req_headers = headers (client ?w1),
                  params = [(''user'', user_uri (client ?w1))], json_payload = None\<rparr>]\<rparr>"
    by blast
  with c1 o1 k1
  have c2: "map (\<lambda>r. (url r, params r)) (outbound (snd (get_event_types calendly ?w1)))
     = [(''https://api.calendly.com/users/me'', []),
        (''https://api.calendly.com/event_types'',
         [(''user'', JStr ''https://api.calendly.com/users/AAA'')])]"
    by (simp add: users_me_request_def sample_client_def)
  have n: "\<not> truthy (user_uri (client sample_world))"
    by (simp add: sample_world_def sample_client_def)
  from n event_types_use_cached_identity [of calendly sample_world]
  have "snd (get_event_types calendly sample_world)
          = ?w1\<lparr>outbound := outbound sample_world @
                [users_me_request (client sample_world),
                 \<lparr>meth = GET, url = fmt_opt (base_url (client sample_world)) @ ''/event_types'',
                  req_headers = headers (client sample_world),
                  params = [(''user'', user_uri (client ?w1))],
                  json_payload = None\<rparr>]\<rparr>"
    by blast
  with c1
  have c3: "map (\<lambda>r. (url r, params r)) (outbound (snd (get_event_types calendly sample_world)))
     = [(''https://api.calendly.com/users/me'', []),
        (''https://api.calendly.com/event_types'',
         [(''user'', JStr ''https://api.calendly.com/users/AAA'')])]"
    by (simp add: users_me_request_def sample_client_def sample_world_def)
  from c1 c2 c3 show ?thesis by simp
qed

subsection \<open>The token at start-up and the credentials afterwards\<close>

text \<open>
  Claim C4 says that construction succeeds whenever the token variable is present. As
  stated this fails: \<open>if not self.token\<close> also rejects a variable that is set to the
  empty string, so a present but empty \<open>CALENDLY_API_TOKEN\<close> stops the process too.
\<close>

theorem empty_token_counterexample:
  "empty_token_env ''CALENDLY_API_TOKEN'' = Some []
   \<and> module_load empty_token_env
       = Inl (ValueError ''Missing Calendly API token. Please set CALENDLY_API_TOKEN in your environment.'')"
  by (simp add: empty_token_env_def module_load_def CalendlyClient_init_def)

text \<open>
  Claim C4, amended. If \<open>CALENDLY_API_TOKEN\<close> is absent or empty, constructing the
  client raises \<open>ValueError\<close> while the module loads, and the process does not start.
  If it holds a non-empty token \<open>t\<close>, construction succeeds with the base URL taken from
  \<open>BASE_URL\<close> and the headers \<open>Authorization: Bearer t\<close> and
  \<open>Content-Type: application/json\<close>; the start-up connection test and every sequence
  of inbound requests served afterwards leave base URL, token and headers as they were.
\<close>

theorem token_required_credentials_fixed:
  "((getenv ''CALENDLY_API_TOKEN'' = None \<or> getenv ''CALENDLY_API_TOKEN'' = Some [])
      \<longrightarrow> module_load getenv
            = Inl (ValueError ''Missing Calendly API token. Please set CALENDLY_API_TOKEN in your environment.''))
   \<and> (getenv ''CALENDLY_API_TOKEN'' = Some t \<and> t \<noteq> []
      \<longrightarrow> (\<exists>w. module_load getenv = Inr w
                \<and> credentials (client w)
                    = (getenv ''BASE_URL'', Some t,
                       [(''Authorization'', ''Bearer '' @ t), (''Content-Type'', ''application/json'')])
                \<and> credentials (client (serve up calls (startup_event up w)))
                    = credentials (client w)))"
  by (auto simp: module_load_def CalendlyClient_init_def credentials_def [of "\<lparr>base_url = _, token = _, headers = _, user_uri = _, user_uuid = _\<rparr>"]
        serve_credentials startup_event_def test_connection_credentials)

theorem token_required_credentials_fixed_witness:
  "module_load no_token_env
     = Inl (ValueError ''Missing Calendly API token. Please set CALENDLY_API_TOKEN in your environment.'')
   \<and> module_load sample_env = Inr sample_world
   \<and> credentials (client (serve calendly
         [TestConnection, Events, Book [(''appointment_type'', JStr ''https://api.calendly.com/event_types/abc'')]]
         (startup_event calendly sample_world)))
       = (Some ''https://api.calendly.com'', Some ''tok'',
          [(''Authorization'', ''Bearer tok''), (''Content-Type'', ''application/json'')])"
proof -
  have a: "no_token_env ''CALENDLY_API_TOKEN'' = None \<or> no_token_env ''CALENDLY_API_TOKEN'' = Some []"
    by (simp add: no_token_env_def)
  have b: "sample_env ''CALENDLY_API_TOKEN'' = Some ''tok'' \<and> ''tok'' \<noteq> []"
    by (simp add: sample_env_def)
  have c: "sample_env ''BASE_URL'' = Some ''https://api.calendly.com''"
    by (simp add: sample_env_def)
  from a token_required_credentials_fixed [of no_token_env]
  have c1: "module_load no_token_env
     = Inl (ValueError ''Missing Calendly API token. Please set CALENDLY_API_TOKEN in your environment.'')"
    by blast
  from b c sample_world_loaded
    token_required_credentials_fixed [of sample_env "''tok''" calendly
      "[TestConnection, Events, Book [(''appointment_type'', JStr ''https://api.calendly.com/event_types/abc'')]]"]
  have c2: "credentials (client (serve calendly
         [TestConnection, Events, Book [(''appointment_type'', JStr ''https://api.calendly.com/event_types/abc'')]]
         (startup_event calendly sample_world)))
       = (Some ''https://api.calendly.com'', Some ''tok'',
          [(''Authorization'', ''Bearer tok''), (''Content-Type'', ''application/json'')])"
    by auto
  from c1 c2 sample_world_loaded show ?thesis by simp
qed

subsection \<open>The outcomes of the connection test\<close>

text \<open>
  Claim C5 says that on every 200 the connection test caches the account URI and returns
  the upstream payload. As stated this fails: decoding and reading the payload happen
  inside the \<open>try\<close>, so a 200 whose body does not decode gives \<open>None\<close> and caches
  nothing.
\<close>

theorem connection_test_undecodable_counterexample:
  "always (Inr (html_response 200)) (outbound sample_world)
      (users_me_request (client sample_world)) = Inr (html_response 200)
   \<and> status_code (html_response 200) = 200
   \<and> test_connection (always (Inr (html_response 200))) sample_world
       = (JNull, sample_world\<lparr>outbound := [users_me_request sample_client]\<rparr>)"
  by (simp add: test_connection_def test_connection_try_def send_def always_def
        html_response_def sample_world_def)

text \<open>
  Claim C5, amended. For the request \<open>r\<close> that \<open>test_connection\<close> sends: when the
  upstream answers 200 with a body that decodes to a document whose \<open>resource\<close> has a
  string \<open>uri\<close> and a \<open>name\<close>, the call caches that URI and its last
  \<open>/\<close>-separated segment (a suffix of the URI without a \<open>/\<close>) and returns the
  document; when the upstream answers another status or the transport raises, the call
  returns \<open>None\<close>, raises nothing and changes nothing but the traffic, and the
  test-connection route answers \<open>{status: "error", message}\<close> with the client, and so
  the cached identity, unchanged.
\<close>

theorem connection_test_outcomes:
  assumes "r = users_me_request (client w)"
  shows "(up (outbound w) r = Inr resp \<and> status_code resp = 200
            \<and> body_json resp = Inr user_data
            \<and> subscript user_data ''resource'' = Inr res
            \<and> subscript res ''uri'' = Inr (JStr u)
            \<and> subscript res ''name'' = Inr n
          \<longrightarrow> test_connection up w
                = (user_data,
                   w\<lparr>outbound := outbound w @ [r],
                     client := (client w)\<lparr>user_uri := JStr u,
                                          user_uuid := JStr (last (split_on CHR ''/'' u))\<rparr>\<rparr>)
              \<and> suffix (last (split_on CHR ''/'' u)) u
              \<and> CHR ''/'' \<notin> set (last (split_on CHR ''/'' u)))
       \<and> ((\<exists>m. up (outbound w) r = Inl m)
            \<or> (\<exists>resp. up (outbound w) r = Inr resp \<and> status_code resp \<noteq> 200)
          \<longrightarrow> test_connection up w = (JNull, w\<lparr>outbound := outbound w @ [r]\<rparr>)
              \<and> test_calendly_connection up w
                  = (Returned (JObj [(''status'', JStr ''error''),
                                     (''message'', JStr ''Failed to connect to Calendly'')]),
                     w\<lparr>outbound := outbound w @ [r]\<rparr>))"
proof -
  have ok: "test_connection up w
                = (user_data,
                   w\<lparr>outbound := outbound w @ [r],
                     client := (client w)\<lparr>user_uri := JStr u,
                                          user_uuid := JStr (last (split_on CHR ''/'' u))\<rparr>\<rparr>)"
    if "up (outbound w) r = Inr resp" "status_code resp = 200" "body_json resp = Inr user_data"
       "subscript user_data ''resource'' = Inr res" "subscript res ''uri'' = Inr (JStr u)"
       "subscript res ''name'' = Inr n"
    using that assms test_connection_success [of up w resp user_data res u n] by simp
  have bad: "test_connection up w = (JNull, w\<lparr>outbound := outbound w @ [r]\<rparr>)"
    if "(\<exists>m. up (outbound w) r = Inl m)
            \<or> (\<exists>resp. up (outbound w) r = Inr resp \<and> status_code resp \<noteq> 200)"
    using that assms test_connection_failure [of up w] by simp
  have route: "test_calendly_connection up w
                  = (Returned (JObj [(''status'', JStr ''error''),
                                     (''message'', JStr ''Failed to connect to Calendly'')]),
                     w\<lparr>outbound := outbound w @ [r]\<rparr>)"
    if "(\<exists>m. up (outbound w) r = Inl m)
            \<or> (\<exists>resp. up (outbound w) r = Inr resp \<and> status_code resp \<noteq> 200)"
    using bad [OF that] by (simp add: test_calendly_connection_def)
  from ok bad route show ?thesis
    by (simp add: last_split_on_suffix last_split_on_no_sep)
qed

theorem connection_test_outcomes_witness:
  "test_connection calendly sample_world
     = (me_document,
        \<lparr>client = sample_client\<lparr>user_uri := JStr ''https://api.calendly.com/users/AAA'',
                                  user_uuid := JStr ''AAA''\<rparr>,
         outbound = [users_me_request sample_client]\<rparr>)
   \<and> test_connection unreachable cached_world
       = (JNull, cached_world\<lparr>outbound := [users_me_request (client cached_world)]\<rparr>)
   \<and> fst (test_calendly_connection (always (Inr (html_response 503))) cached_world)
       = Returned (JObj [(''status'', JStr ''error''),
                         (''message'', JStr ''Failed to connect to Calendly'')])"
proof -
  have a: "calendly (outbound sample_world) (users_me_request (client sample_world))
             = Inr (ok_response me_document)
           \<and> status_code (ok_response me_document) = 200
           \<and> body_json (ok_response me_document) = Inr me_document
           \<and> subscript me_document ''resource''
               = Inr (JObj [(''uri'', JStr ''https://api.calendly.com/users/AAA''),
                            (''name'', JStr ''Ann'')])
           \<and> subscript (JObj [(''uri'', JStr ''https://api.calendly.com/users/AAA''),
                               (''name'', JStr ''Ann'')]) ''uri''
               = Inr (JStr ''https://api.calendly.com/users/AAA'')
           \<and> subscript (JObj [(''uri'', JStr ''https://api.calendly.com/users/AAA''),
                               (''name'', JStr ''Ann'')]) ''name'' = Inr (JStr ''Ann'')"
    by (simp add: calendly_def users_me_request_def sample_world_def sample_client_def
          ok_response_def me_document_def)
  have s: "last (split_on CHR ''/'' ''https://api.calendly.com/users/AAA'') = ''AAA''"
    by simp
  have b: "(\<exists>m. unreachable (outbound cached_world) (users_me_request (client cached_world)) = Inl m)
           \<or> (\<exists>resp. unreachable (outbound cached_world) (users_me_request (client cached_world))
                        = Inr resp \<and> status_code resp \<noteq> 200)"
    by (simp add: unreachable_def always_def)
  have c: "(\<exists>m. always (Inr (html_response 503)) (outbound cached_world)
                   (users_me_request (client cached_world)) = Inl m)
           \<or> (\<exists>resp. always (Inr (html_response 503)) (outbound cached_world)
                        (users_me_request (client cached_world))
                        = Inr resp \<and> status_code resp \<noteq> 200)"
    by (simp add: always_def html_response_def)
  from a s connection_test_outcomes [OF refl, of calendly sample_world "ok_response me_document"
         me_document "JObj [(''uri'', JStr ''https://api.calendly.com/users/AAA''),
                            (''name'', JStr ''Ann'')]"
         "''https://api.calendly.com/users/AAA''" "JStr ''Ann''"]
  have c1: "test_connection calendly sample_world
     = (me_document,
        \<lparr>client = sample_client\<lparr>user_uri := JStr ''https://api.calendly.com/users/AAA'',
                                  user_uuid := JStr ''AAA''\<rparr>,
         outbound = [users_me_request sample_client]\<rparr>)"
    by (simp add: sample_world_def)
  from b connection_test_outcomes [OF refl, of unreachable cached_world]
  have c2: "test_connection unreachable cached_world
       = (JNull, cached_world\<lparr>outbound := [users_me_request (client cached_world)]\<rparr>)"
    by (simp add: cached_world_def)
  from c connection_test_outcomes [OF refl, of "always (Inr (html_response 503))" cached_world]
  have c3: "fst (test_calendly_connection (always (Inr (html_response 503))) cached_world)
       = Returned (JObj [(''status'', JStr ''error''),
                         (''message'', JStr ''Failed to connect to Calendly'')])"
    by simp
  from c1 c2 c3 show ?thesis by simp
qed

subsection \<open>The payload of the booking route\<close>

text \<open>
  Claim C6. For a booking body whose \<open>appointment_type\<close> is a string starting with
  \<open>https://api.calendly.com/\<close> (it passes the route's validation), the route issues
  exactly one outbound request, a POST to \<open>/scheduling_links\<close>, whose JSON payload has
  the three keys \<open>max_event_count\<close>, \<open>owner\<close> and \<open>owner_type\<close>: \<open>owner\<close> is
  the supplied \<open>appointment_type\<close>; \<open>owner_type\<close> is \<open>"EventType"\<close> when the body
  omits it and \<open>max_event_count\<close> is 1 when the body omits it; a supplied value is
  passed on as it is.
\<close>

theorem booking_payload_defaults:
  assumes "map_of payload ''appointment_type'' = Some (JStr a)"
    and "prefix ''https://api.calendly.com/'' a"
  shows "\<exists>mc ot.
           outbound (snd (create_scheduling_link up w payload))
             = outbound w @
               [\<lparr>meth = POST, url = fmt_opt (base_url (client w)) @ ''/scheduling_links'',
                 req_headers = headers (client w), params = [],
                 json_payload = Some (JObj [(''max_event_count'', mc), (''owner'', JStr a),
                                            (''owner_type'', ot)])\<rparr>]
           \<and> (map_of payload ''owner_type'' = None \<longrightarrow> ot = JStr ''EventType'')
           \<and> (map_of payload ''max_event_count'' = None \<longrightarrow> mc = JInt 1)
           \<and> (\<forall>v. map_of payload ''owner_type'' = Some v \<longrightarrow> ot = v)
           \<and> (\<forall>v. map_of payload ''max_event_count'' = Some v \<longrightarrow> mc = v)"
proof -
  from assms(2) have "a \<noteq> []" by auto
  with assms show ?thesis
    by (auto simp: create_scheduling_link_def post_scheduling_link_snd calendly_payload_def
          scheduling_links_request_def)
qed

theorem booking_payload_defaults_witness:
  "outbound (snd (create_scheduling_link calendly sample_world
       [(''appointment_type'', JStr ''https://api.calendly.com/event_types/abc'')]))
     = [\<lparr>meth = POST, url = ''https://api.calendly.com/scheduling_links'',
         req_headers = [(''Authorization'', ''Bearer tok''), (''Content-Type'', ''application/json'')],
         params = [],
         json_payload = Some (JObj [(''max_event_count'', JInt 1),
                                    (''owner'', JStr ''https://api.calendly.com/event_types/abc''),
                                    (''owner_type'', JStr ''EventType'')])\<rparr>]"
proof -
  have a: "map_of [(''appointment_type'', JStr ''https://api.calendly.com/event_types/abc'')]
             ''appointment_type'' = Some (JStr ''https://api.calendly.com/event_types/abc'')"
    by simp
  have b: "prefix ''https://api.calendly.com/'' ''https://api.calendly.com/event_types/abc''"
    by simp
  from booking_payload_defaults [OF a b, of calendly sample_world]
  show ?thesis by (auto simp: sample_world_def sample_client_def)
qed

subsection \<open>Failures of listing and availability\<close>

text \<open>
  Claim C7 says that every failure of the listing and availability operations yields a
  payload with both an \<open>error\<close> and a \<open>details\<close> field. As stated this fails for
  an exception of the transport: the \<open>except\<close> branch returns \<open>{"error": str(e)}\<close>,
  a dict without \<open>details\<close>.
\<close>

theorem availability_transport_failure_counterexample:
  "unreachable (outbound sample_world)
      (availability_request (client sample_world)
         ''https://api.calendly.com/event_types/abc'' ''2025-11-14'' ''2025-11-20'')
     = Inl ''All connection attempts failed''
   \<and> fst (get_availability unreachable sample_world
            ''https://api.calendly.com/event_types/abc'' ''2025-11-14'' ''2025-11-20'')
       = JObj [(''error'', JStr ''All connection attempts failed'')]
   \<and> subscript (fst (get_availability unreachable sample_world
            ''https://api.calendly.com/event_types/abc'' ''2025-11-14'' ''2025-11-20''))
         ''details'' = Inl (KeyError (quoted ''details''))"
  by (simp add: get_availability_fst unreachable_def always_def)

text \<open>
  Claim C7, amended. Both operations return an ordinary value on failure, never an
  exception. When the upstream answers with a status other than 200, the value is
  \<open>{error, details}\<close>: \<open>error\<close> is \<open>Calendly returned\<close> followed by the status in
  decimal, \<open>details\<close> is the response text. When the transport raises, the value is
  \<open>{error}\<close> alone, holding the exception's text. For the listing operation the
  request in question is the one sent from the state \<open>w1\<close> reached after the
  identity has been looked up where it was missing.
\<close>

theorem listing_failure_payloads:
  assumes "w1 = (if truthy (user_uri (client w)) then w else snd (test_connection up w))"
  shows "(up (outbound w) (availability_request (client w) a s e) = Inr resp
            \<and> status_code resp \<noteq> 200
          \<longrightarrow> fst (get_availability up w a s e)
                = JObj [(''error'', JStr (''Calendly returned '' @ str_int (status_code resp))),
                        (''details'', JStr (body_text resp))])
       \<and> (up (outbound w) (availability_request (client w) a s e) = Inl m
          \<longrightarrow> fst (get_availability up w a s e) = JObj [(''error'', JStr m)])
       \<and> (up (outbound w1) (event_types_request (client w1)) = Inr resp
            \<and> status_code resp \<noteq> 200
          \<longrightarrow> fst (get_event_types up w)
                = JObj [(''error'', JStr (''Calendly returned '' @ str_int (status_code resp))),
                        (''details'', JStr (body_text resp))])
       \<and> (up (outbound w1) (event_types_request (client w1)) = Inl m
          \<longrightarrow> fst (get_event_types up w) = JObj [(''error'', JStr m)])"
  using get_event_types_fst [OF assms]
  by (simp add: get_availability_fst collection_result_soft soft_error_def)

theorem listing_failure_payloads_witness:
  "fst (get_availability (always (Inr (html_response 503))) cached_world
          ''https://api.calendly.com/event_types/abc'' ''2025-11-14'' ''2025-11-20'')
     = JObj [(''error'', JStr ''Calendly returned 503''), (''details'', JStr ''<html>'')]
   \<and> fst (get_event_types (always (Inr (html_response 503))) cached_world)
     = JObj [(''error'', JStr ''Calendly returned 503''), (''details'', JStr ''<html>'')]
   \<and> fst (get_availability unreachable cached_world
          ''https://api.calendly.com/event_types/abc'' ''2025-11-14'' ''2025-11-20'')
     = JObj [(''error'', JStr ''All connection attempts failed'')]
   \<and> fst (get_event_types unreachable cached_world)
     = JObj [(''error'', JStr ''All connection attempts failed'')]"
proof -
  have w1: "cached_world = (if truthy (user_uri (client cached_world)) then cached_world
                            else snd (test_connection up cached_world))" for up
    by (simp add: cached_world_def)
  have d: "str_int 503 = ''503''"
    by (simp add: str_int_def digits10.simps)
  have h: "always (Inr (html_response 503)) tr r = Inr (html_response 503)
           \<and> status_code (html_response 503) = 503
           \<and> body_text (html_response 503) = ''<html>''" for tr r
    by (simp add: always_def html_response_def)
  have u: "unreachable tr r = Inl ''All connection attempts failed''" for tr r
    by (simp add: always_def unreachable_def)
  from h d listing_failure_payloads [OF w1, of "always (Inr (html_response 503))"
         "''https://api.calendly.com/event_types/abc''" "''2025-11-14''" "''2025-11-20''"
         "html_response 503"]
  have c1: "fst (get_availability (always (Inr (html_response 503))) cached_world
          ''https://api.calendly.com/event_types/abc'' ''2025-11-14'' ''2025-11-20'')
     = JObj [(''error'', JStr ''Calendly returned 503''), (''details'', JStr ''<html>'')]
   \<and> fst (get_event_types (always (Inr (html_response 503))) cached_world)
     = JObj [(''error'', JStr ''Calendly returned 503''), (''details'', JStr ''<html>'')]"
    by simp
  from u listing_failure_payloads [OF w1, of unreachable
         "''https://api.calendly.com/event_types/abc''" "''2025-11-14''" "''2025-11-20''"
         _ "''All connection attempts failed''"]
  have c2: "fst (get_availability unreachable cached_world
          ''https://api.calendly.com/event_types/abc'' ''2025-11-14'' ''2025-11-20'')
     = JObj [(''error'', JStr ''All connection attempts failed'')]
   \<and> fst (get_event_types unreachable cached_world)
     = JObj [(''error'', JStr ''All connection attempts failed'')]"
    by simp
  from c1 c2 show ?thesis by simp
qed

subsection \<open>The availability route passes its parameters and the upstream body through\<close>

text \<open>
  Claim C8. For an \<open>appointment_type\<close> that passes the availability route's check,
  the route issues exactly one outbound request, a GET of \<open>/event_type_available_times\<close>
  whose query parameters are the three values the caller supplied, unchanged:
  \<open>event_type\<close>, \<open>start_time\<close> and \<open>end_time\<close>. When the upstream answers 200
  with a document whose \<open>collection\<close> is a list of \<open>n\<close> items, the route returns
  that document as it is.
\<close>

theorem availability_passes_parameters_and_body:
  assumes "prefix ''https://api.calendly.com/event_types/'' a"
  shows "outbound (snd (get_calendly_availability up w a s e))
           = outbound w @
             [\<lparr>meth = GET, url = fmt_opt (base_url (client w)) @ ''/event_type_available_times'',
               req_headers = headers (client w),
               params = [(''event_type'', JStr a), (''start_time'', JStr s), (''end_time'', JStr e)],
               json_payload = None\<rparr>]
         \<and> (up (outbound w) (availability_request (client w) a s e) = Inr resp
              \<and> status_code resp = 200 \<and> body_json resp = Inr (JObj kvs)
              \<and> map_of kvs ''collection'' = Some (JArr items) \<and> length items = n
            \<longrightarrow> fst (get_calendly_availability up w a s e) = Returned (JObj kvs))"
proof -
  have split: "get_calendly_availability up w a s e
                 = (Returned (fst (get_availability up w a s e)), snd (get_availability up w a s e))"
    using assms by (simp add: get_calendly_availability_def split: prod.splits)
  have traffic: "outbound (snd (get_calendly_availability up w a s e))
           = outbound w @ [availability_request (client w) a s e]"
    by (simp add: split get_availability_snd)
  have body: "fst (get_calendly_availability up w a s e) = Returned (JObj kvs)"
    if "up (outbound w) (availability_request (client w) a s e) = Inr resp"
      and "status_code resp = 200" and "body_json resp = Inr (JObj kvs)"
      and "map_of kvs ''collection'' = Some (JArr items)"
    using that by (simp add: split get_availability_fst collection_result_ok)
  from traffic body show ?thesis by (simp add: availability_request_def)
qed

theorem availability_passes_parameters_and_body_witness:
  "fst (get_calendly_availability calendly sample_world
          ''https://api.calendly.com/event_types/abc'' ''2025-11-14'' ''2025-11-20'')
     = Returned (JObj [(''collection'', JArr [JStr ''slot1'', JStr ''slot2''])])
   \<and> map params (outbound (snd (get_calendly_availability calendly sample_world
          ''https://api.calendly.com/event_types/abc'' ''2025-11-14'' ''2025-11-20'')))
     = [[(''event_type'', JStr ''https://api.calendly.com/event_types/abc''),
         (''start_time'', JStr ''2025-11-14''), (''end_time'', JStr ''2025-11-20'')]]"
proof -
  have a: "prefix ''https://api.calendly.com/event_types/'' ''https://api.calendly.com/event_types/abc''"
    by simp
  have b: "calendly (outbound sample_world)
             (availability_request (client sample_world)
                ''https://api.calendly.com/event_types/abc'' ''2025-11-14'' ''2025-11-20'')
           = Inr (ok_response slots_document)
         \<and> status_code (ok_response slots_document) = 200
         \<and> body_json (ok_response slots_document)
             = Inr (JObj [(''collection'', JArr [JStr ''slot1'', JStr ''slot2''])])
         \<and> map_of [(''collection'', JArr [JStr ''slot1'', JStr ''slot2''])] ''collection''
             = Some (JArr [JStr ''slot1'', JStr ''slot2''])
         \<and> length [JStr ''slot1'', JStr ''slot2''] = 2"
    by (simp add: calendly_def availability_request_def sample_world_def sample_client_def
          ok_response_def slots_document_def)
  from b availability_passes_parameters_and_body
         [OF a, of calendly sample_world "''2025-11-14''" "''2025-11-20''"
            "ok_response slots_document" "[(''collection'', JArr [JStr ''slot1'', JStr ''slot2''])]"
            "[JStr ''slot1'', JStr ''slot2'']" 2]
  show ?thesis by (simp add: sample_world_def)
qed

subsection \<open>A failed connection test leaves the cached identity alone\<close>

text \<open>
  Claim C9. When the call to \<open>/users/me\<close> made by \<open>test_connection\<close> fails, by an
  exception of the transport or by a status other than 200, the fields \<open>user_uri\<close>
  and \<open>user_uuid\<close> of the client keep the values they had before the call; an identity
  cached earlier is neither cleared nor overwritten.
\<close>

theorem failed_test_connection_keeps_identity:
  assumes "(\<exists>m. up (outbound w) (users_me_request (client w)) = Inl m) \<or>
           (\<exists>resp. up (outbound w) (users_me_request (client w)) = Inr resp
                     \<and> status_code resp \<noteq> 200)"
  shows "user_uri (client (snd (test_connection up w))) = user_uri (client w)
         \<and> user_uuid (client (snd (test_connection up w))) = user_uuid (client w)"
  using assms test_connection_failure [of up w] by simp

theorem failed_test_connection_keeps_identity_witness:
  "user_uri (client (snd (test_connection (always (Inr (html_response 503))) cached_world)))
     = JStr ''https://api.calendly.com/users/AAA''
   \<and> user_uuid (client (snd (test_connection unreachable cached_world))) = JStr ''AAA''"
proof -
  have a: "(\<exists>m. always (Inr (html_response 503)) (outbound cached_world)
                  (users_me_request (client cached_world)) = Inl m) \<or>
           (\<exists>resp. always (Inr (html_response 503)) (outbound cached_world)
                  (users_me_request (client cached_world)) = Inr resp \<and> status_code resp \<noteq> 200)"
    by (simp add: always_def html_response_def)
  have b: "(\<exists>m. unreachable (outbound cached_world)
                  (users_me_request (client cached_world)) = Inl m) \<or>
           (\<exists>resp. unreachable (outbound cached_world)
                  (users_me_request (client cached_world)) = Inr resp \<and> status_code resp \<noteq> 200)"
    by (simp add: always_def unreachable_def)
  from a b
    failed_test_connection_keeps_identity [of "always (Inr (html_response 503))" cached_world]
    failed_test_connection_keeps_identity [of unreachable cached_world]
  show ?thesis by (simp add: cached_world_def)
qed

subsection \<open>The two routes check different prefixes\<close>

text \<open>
  Claim C10. The availability route accepts an \<open>appointment_type\<close> exactly when it
  starts with \<open>https://api.calendly.com/event_types/\<close>: without the prefix it raises
  the validation error (answered 422) and leaves the state alone; with it the route
  returns a body and issues its GET. The booking route accepts a string
  \<open>appointment_type\<close> exactly when it starts with \<open>https://api.calendly.com/\<close>:
  without the prefix it raises its validation error and leaves the state alone; with it
  the route issues one POST to \<open>/scheduling_links\<close> whose JSON payload carries the
  string as \<open>owner\<close>. Every string with the availability prefix has the booking
  prefix, and \<open>https://api.calendly.com/users/x\<close> has the booking prefix only: the
  availability route answers it with 422 and sends nothing, while the booking route
  posts it upstream as \<open>owner\<close>.
\<close>

theorem booking_prefix_weaker_than_availability:
  "(prefix ''https://api.calendly.com/event_types/'' a \<longrightarrow> prefix ''https://api.calendly.com/'' a)
   \<and> (\<not> prefix ''https://api.calendly.com/event_types/'' a
        \<longrightarrow> fst (get_calendly_availability up w a s e)
              = RequestValidationError
                  [JObj [(''loc'', JArr [JStr ''query'', JStr ''appointment_type'']),
                         (''msg'', JStr ''Invalid appointment_type. Please provide a valid appointment_type, You can get this from URI key in /api/calendly/events''),
                         (''type'', JStr ''value_error.invalid_appointment_type'')]]
            \<and> http_status (fst (get_calendly_availability up w a s e)) = 422
            \<and> snd (get_calendly_availability up w a s e) = w)
   \<and> (prefix ''https://api.calendly.com/event_types/'' a
        \<longrightarrow> (\<exists>result. fst (get_calendly_availability up w a s e) = Returned result)
            \<and> snd (get_calendly_availability up w a s e)
                = w\<lparr>outbound := outbound w @
                     [\<lparr>meth = GET,
                       url = fmt_opt (base_url (client w)) @ ''/event_type_available_times'',
                       req_headers = headers (client w),
                       params = [(''event_type'', JStr a), (''start_time'', JStr s),
                                 (''end_time'', JStr e)],
                       json_payload = None\<rparr>]\<rparr>)
   \<and> (map_of payload ''appointment_type'' = Some (JStr a)
        \<and> \<not> prefix ''https://api.calendly.com/'' a
        \<longrightarrow> fst (create_scheduling_link up w payload)
              = RequestValidationError
                  [JObj [(''loc'', JArr [JStr ''body'', JStr ''appointment_type'']),
                         (''msg'', JStr ''Invalid appointment_type. Please provide a valid event type URI.''),
                         (''type'', JStr ''value_error.invalid_appointment_type'')]]
            \<and> snd (create_scheduling_link up w payload) = w)
   \<and> (map_of payload ''appointment_type'' = Some (JStr a)
        \<and> prefix ''https://api.calendly.com/'' a
        \<longrightarrow> snd (create_scheduling_link up w payload)
              = w\<lparr>outbound := outbound w @
                   [\<lparr>meth = POST,
                     url = fmt_opt (base_url (client w)) @ ''/scheduling_links'',
                     req_headers = headers (client w), params = [],
                     json_payload =
                       Some (JObj [(''max_event_count'',
                                      (case map_of payload ''max_event_count'' of
                                         Some v \<Rightarrow> v | None \<Rightarrow> JInt 1)),
                                   (''owner'', JStr a),
                                   (''owner_type'',
                                      (case map_of payload ''owner_type'' of
                                         Some v \<Rightarrow> v | None \<Rightarrow> JStr ''EventType''))])\<rparr>]\<rparr>)
   \<and> prefix ''https://api.calendly.com/'' ''https://api.calendly.com/users/x''
   \<and> \<not> prefix ''https://api.calendly.com/event_types/'' ''https://api.calendly.com/users/x''
   \<and> http_status (fst (get_calendly_availability up w ''https://api.calendly.com/users/x'' s e)) = 422
   \<and> snd (get_calendly_availability up w ''https://api.calendly.com/users/x'' s e) = w
   \<and> snd (create_scheduling_link up w
             [(''appointment_type'', JStr ''https://api.calendly.com/users/x'')])
       = w\<lparr>outbound := outbound w @
            [\<lparr>meth = POST,
              url = fmt_opt (base_url (client w)) @ ''/scheduling_links'',
              req_headers = headers (client w), params = [],
              json_payload =
                Some (JObj [(''max_event_count'', JInt 1),
                            (''owner'', JStr ''https://api.calendly.com/users/x''),
                            (''owner_type'', JStr ''EventType'')])\<rparr>]\<rparr>"
proof -
  have weaker: "prefix ''https://api.calendly.com/event_types/'' a \<longrightarrow> prefix ''https://api.calendly.com/'' a"
  proof
    assume "prefix ''https://api.calendly.com/event_types/'' a"
    moreover have "prefix ''https://api.calendly.com/'' ''https://api.calendly.com/event_types/''"
      by simp
    ultimately show "prefix ''https://api.calendly.com/'' a"
      by (rule prefix_order.order_trans [rotated])
  qed
  have av_rej: "get_calendly_availability up w b s e
              = (RequestValidationError
                  [JObj [(''loc'', JArr [JStr ''query'', JStr ''appointment_type'']),
                         (''msg'', JStr ''Invalid appointment_type. Please provide a valid appointment_type, You can get this from URI key in /api/calendly/events''),
                         (''type'', JStr ''value_error.invalid_appointment_type'')]], w)"
    if "\<not> prefix ''https://api.calendly.com/event_types/'' b" for b
    using that by (simp add: get_calendly_availability_def validation_error_def)
  have av_acc: "get_calendly_availability up w a s e
                 = (Returned (fst (get_availability up w a s e)),
                    w\<lparr>outbound := outbound w @ [availability_request (client w) a s e]\<rparr>)"
    if "prefix ''https://api.calendly.com/event_types/'' a"
    using that get_availability_snd [of up w a s e]
    by (cases "get_availability up w a s e") (simp add: get_calendly_availability_def)
  have bk_rej: "create_scheduling_link up w payload
              = (RequestValidationError
                  [JObj [(''loc'', JArr [JStr ''body'', JStr ''appointment_type'']),
                         (''msg'', JStr ''Invalid appointment_type. Please provide a valid event type URI.''),
                         (''type'', JStr ''value_error.invalid_appointment_type'')]], w)"
    if "map_of payload ''appointment_type'' = Some (JStr a)"
       "\<not> prefix ''https://api.calendly.com/'' a"
    using that by (simp add: create_scheduling_link_def validation_error_def Let_def)
  have bk_acc: "snd (create_scheduling_link up w p)
              = w\<lparr>outbound := outbound w @
                   [scheduling_links_request (client w) (calendly_payload p (JStr b))]\<rparr>"
    if "map_of p ''appointment_type'' = Some (JStr b)" "prefix ''https://api.calendly.com/'' b"
    for p b
    using that by (simp add: create_scheduling_link_valid post_scheduling_link_snd)
  have ex: "prefix ''https://api.calendly.com/'' ''https://api.calendly.com/users/x''"
    by simp
  have rej: "\<not> prefix ''https://api.calendly.com/event_types/'' ''https://api.calendly.com/users/x''"
    by simp
  have bk_ex: "snd (create_scheduling_link up w
             [(''appointment_type'', JStr ''https://api.calendly.com/users/x'')])
       = w\<lparr>outbound := outbound w @
            [scheduling_links_request (client w)
               (calendly_payload [(''appointment_type'', JStr ''https://api.calendly.com/users/x'')]
                  (JStr ''https://api.calendly.com/users/x''))]\<rparr>"
    by (rule bk_acc [OF _ ex]) simp
  have c1: "\<not> prefix ''https://api.calendly.com/event_types/'' a
        \<longrightarrow> fst (get_calendly_availability up w a s e)
              = RequestValidationError
                  [JObj [(''loc'', JArr [JStr ''query'', JStr ''appointment_type'']),
                         (''msg'', JStr ''Invalid appointment_type. Please provide a valid appointment_type, You can get this from URI key in /api/calendly/events''),
                         (''type'', JStr ''value_error.invalid_appointment_type'')]]
            \<and> http_status (fst (get_calendly_availability up w a s e)) = 422
            \<and> snd (get_calendly_availability up w a s e) = w"
    using av_rej [of a] by simp
  have c2: "prefix ''https://api.calendly.com/event_types/'' a
        \<longrightarrow> (\<exists>result. fst (get_calendly_availability up w a s e) = Returned result)
            \<and> snd (get_calendly_availability up w a s e)
                = w\<lparr>outbound := outbound w @
                     [\<lparr>meth = GET,
                       url = fmt_opt (base_url (client w)) @ ''/event_type_available_times'',
                       req_headers = headers (client w),
                       params = [(''event_type'', JStr a), (''start_time'', JStr s),
                                 (''end_time'', JStr e)],
                       json_payload = None\<rparr>]\<rparr>"
    using av_acc by (simp add: availability_request_def)
  have c3: "map_of payload ''appointment_type'' = Some (JStr a)
        \<and> \<not> prefix ''https://api.calendly.com/'' a
        \<longrightarrow> fst (create_scheduling_link up w payload)
              = RequestValidationError
                  [JObj [(''loc'', JArr [JStr ''body'', JStr ''appointment_type'']),
                         (''msg'', JStr ''Invalid appointment_type. Please provide a valid event type URI.''),
                         (''type'', JStr ''value_error.invalid_appointment_type'')]]
            \<and> snd (create_scheduling_link up w payload) = w"
    using bk_rej by simp
  have c4: "map_of payload ''appointment_type'' = Some (JStr a)
        \<and> prefix ''https://api.calendly.com/'' a
        \<longrightarrow> snd (create_scheduling_link up w payload)
              = w\<lparr>outbound := outbound w @
                   [\<lparr>meth = POST,
                     url = fmt_opt (base_url (client w)) @ ''/scheduling_links'',
                     req_headers = headers (client w), params = [],
                     json_payload =
                       Some (JObj [(''max_event_count'',
                                      (case map_of payload ''max_event_count'' of
                                         Some v \<Rightarrow> v | None \<Rightarrow> JInt 1)),
                                   (''owner'', JStr a),
                                   (''owner_type'',
                                      (case map_of payload ''owner_type'' of
                                         Some v \<Rightarrow> v | None \<Rightarrow> JStr ''EventType''))])\<rparr>]\<rparr>"
    using bk_acc [of payload a]
    by (simp add: scheduling_links_request_def calendly_payload_def)
  have c5: "http_status (fst (get_calendly_availability up w ''https://api.calendly.com/users/x'' s e)) = 422
   \<and> snd (get_calendly_availability up w ''https://api.calendly.com/users/x'' s e) = w"
    using av_rej [OF rej] by simp
  have c6: "snd (create_scheduling_link up w
             [(''appointment_type'', JStr ''https://api.calendly.com/users/x'')])
       = w\<lparr>outbound := outbound w @
            [\<lparr>meth = POST,
              url = fmt_opt (base_url (client w)) @ ''/scheduling_links'',
              req_headers = headers (client w), params = [],
              json_payload =
                Some (JObj [(''max_event_count'', JInt 1),
                            (''owner'', JStr ''https://api.calendly.com/users/x''),
                            (''owner_type'', JStr ''EventType'')])\<rparr>]\<rparr>"
    using bk_ex by (simp add: scheduling_links_request_def calendly_payload_def)
  from weaker c1 c2 c3 c4 ex rej c5 c6 show ?thesis by blast
qed

theorem booking_prefix_weaker_than_availability_witness:
  "prefix ''https://api.calendly.com/event_types/'' ''https://api.calendly.com/event_types/abc''
   \<and> prefix ''https://api.calendly.com/'' ''https://api.calendly.com/event_types/abc''
   \<and> \<not> prefix ''https://api.calendly.com/'' ''ftp://example.org/x''
   \<and> \<not> prefix ''https://api.calendly.com/event_types/'' ''ftp://example.org/x''
   \<and> map url (outbound (snd (get_calendly_availability calendly sample_world
         ''https://api.calendly.com/event_types/abc'' ''2025-11-14'' ''2025-11-20'')))
       = [''https://api.calendly.com/event_type_available_times'']
   \<and> map json_payload (outbound (snd (create_scheduling_link calendly sample_world
         [(''appointment_type'', JStr ''https://api.calendly.com/event_types/abc'')])))
       = [Some (JObj [(''max_event_count'', JInt 1),
                      (''owner'', JStr ''https://api.calendly.com/event_types/abc''),
                      (''owner_type'', JStr ''EventType'')])]
   \<and> snd (create_scheduling_link calendly sample_world
         [(''appointment_type'', JStr ''ftp://example.org/x'')]) = sample_world
   \<and> snd (get_calendly_availability calendly sample_world
         ''ftp://example.org/x'' ''2025-11-14'' ''2025-11-20'') = sample_world
   \<and> map json_payload (outbound (snd (create_scheduling_link calendly sample_world
         [(''appointment_type'', JStr ''https://api.calendly.com/users/x'')])))
       = [Some (JObj [(''max_event_count'', JInt 1),
                      (''owner'', JStr ''https://api.calendly.com/users/x''),
                      (''owner_type'', JStr ''EventType'')])]
   \<and> http_status (fst (get_calendly_availability calendly sample_world
        ''https://api.calendly.com/users/x'' ''2025-11-14'' ''2025-11-20'')) = 422"
proof -
  let ?ok = "''https://api.calendly.com/event_types/abc''"
  let ?bad = "''ftp://example.org/x''"
  have a: "prefix ''https://api.calendly.com/event_types/'' ?ok
           \<and> prefix ''https://api.calendly.com/'' ?ok
           \<and> map_of [(''appointment_type'', JStr ?ok)] ''appointment_type'' = Some (JStr ?ok)
           \<and> map_of [(''appointment_type'', JStr ?ok)] ''max_event_count'' = None
           \<and> map_of [(''appointment_type'', JStr ?ok)] ''owner_type'' = None"
    by simp
  have b: "\<not> prefix ''https://api.calendly.com/'' ?bad
           \<and> \<not> prefix ''https://api.calendly.com/event_types/'' ?bad
           \<and> map_of [(''appointment_type'', JStr ?bad)] ''appointment_type'' = Some (JStr ?bad)"
    by simp
  have o: "outbound sample_world = []"
    by (simp add: sample_world_def)
  have u: "fmt_opt (base_url (client sample_world)) = ''https://api.calendly.com''"
    by (simp add: sample_world_def sample_client_def)
  note ok = booking_prefix_weaker_than_availability
         [of ?ok calendly sample_world "''2025-11-14''" "''2025-11-20''"
             "[(''appointment_type'', JStr ?ok)]"]
  note bad = booking_prefix_weaker_than_availability
         [of ?bad calendly sample_world "''2025-11-14''" "''2025-11-20''"
             "[(''appointment_type'', JStr ?bad)]"]
  from a ok have k1: "snd (get_calendly_availability calendly sample_world ?ok
                        ''2025-11-14'' ''2025-11-20'')
        = sample_world\<lparr>outbound := outbound sample_world @
             [\<lparr>meth = GET,
               url = fmt_opt (base_url (client sample_world)) @ ''/event_type_available_times'',
               req_headers = headers (client sample_world),
               params = [(''event_type'', JStr ?ok), (''start_time'', JStr ''2025-11-14''),
                         (''end_time'', JStr ''2025-11-20'')],
               json_payload = None\<rparr>]\<rparr>"
    by blast
  from a ok have k2: "snd (create_scheduling_link calendly sample_world
                             [(''appointment_type'', JStr ?ok)])
        = sample_world\<lparr>outbound := outbound sample_world @
             [\<lparr>meth = POST,
               url = fmt_opt (base_url (client sample_world)) @ ''/scheduling_links'',
               req_headers = headers (client sample_world), params = [],
               json_payload =
                 Some (JObj [(''max_event_count'',
                                (case map_of [(''appointment_type'', JStr ?ok)] ''max_event_count'' of
                                   Some v \<Rightarrow> v | None \<Rightarrow> JInt 1)),
                             (''owner'', JStr ?ok),
                             (''owner_type'',
                                (case map_of [(''appointment_type'', JStr ?ok)] ''owner_type'' of
                                   Some v \<Rightarrow> v | None \<Rightarrow> JStr ''EventType''))])\<rparr>]\<rparr>"
    by blast
  from b bad have k3: "snd (create_scheduling_link calendly sample_world
                              [(''appointment_type'', JStr ?bad)]) = sample_world
        \<and> snd (get_calendly_availability calendly sample_world ?bad
                  ''2025-11-14'' ''2025-11-20'') = sample_world"
    by blast
  from ok have k4: "snd (create_scheduling_link calendly sample_world
             [(''appointment_type'', JStr ''https://api.calendly.com/users/x'')])
       = sample_world\<lparr>outbound := outbound sample_world @
            [\<lparr>meth = POST,
              url = fmt_opt (base_url (client sample_world)) @ ''/scheduling_links'',
              req_headers = headers (client sample_world), params = [],
              json_payload =
                Some (JObj [(''max_event_count'', JInt 1),
                            (''owner'', JStr ''https://api.calendly.com/users/x''),
                            (''owner_type'', JStr ''EventType'')])\<rparr>]\<rparr>
       \<and> http_status (fst (get_calendly_availability calendly sample_world
            ''https://api.calendly.com/users/x'' ''2025-11-14'' ''2025-11-20'')) = 422"
    by blast
  from a b show ?thesis
    by (simp add: k1 k2 k3 k4 o u)
qed

end
